theory Spec2Isabelle
  imports Complex_Main
begin

section \<open>Thor triangulation engine (src/thor-v1.0-sdk/src/Triangulation.cpp)\<close>

text \<open>
  Shallow embedding of the functions of namespace \<open>thor::detail\<close>.

  Conventions of the embedding.
  \<^item> \<open>sf::Vector2f\<close> is a pair of coordinates, \<open>fst\<close> its \<open>x\<close> and \<open>snd\<close> its \<open>y\<close>.
    Coordinates are real numbers: the arithmetic of the source is read exactly, the
    rounding of \<open>float\<close> is not modelled.  The one place where IEEE arithmetic is
    visible without rounding, a division by zero in \<open>ComputeCircumcircle\<close>, is
    modelled explicitly.
  \<^item> A \<open>const Vertex&\<close> is the address of a vertex object, a natural number; the
    position of the object is read from a vertex heap \<open>nat \<Rightarrow> Vector2f\<close>.  Comparing
    addresses (\<open>&a == &b\<close>) is equality of the numbers.
  \<^item> \<open>std::tr1::array<T, 3>\<close> is \<open>'a array3\<close>.  Every subscript of the source is
    a literal below 3, a value reduced \<open>% 3\<close>, or \<open>2 - i\<close> with \<open>i < 3\<close>.
  \<^item> An \<open>assert\<close> that fails is the result \<open>Inl AssertionFailed\<close>; dereferencing
    an iterator that does not point to a list element is \<open>Inl InvalidIterator\<close>,
    a subscript beyond the end of a vector \<open>Inl OutOfRange\<close>.
\<close>

subsection \<open>Vectors\<close>

type_synonym Vector2f = "real \<times> real"

definition vadd :: "Vector2f \<Rightarrow> Vector2f \<Rightarrow> Vector2f" where
  "vadd a b = (fst a + fst b, snd a + snd b)"

definition vsub :: "Vector2f \<Rightarrow> Vector2f \<Rightarrow> Vector2f" where
  "vsub a b = (fst a - fst b, snd a - snd b)"

definition vscale :: "real \<Rightarrow> Vector2f \<Rightarrow> Vector2f" where
  "vscale k a = (k * fst a, k * snd a)"

text \<open>
  Modelled from the spec: the header \<open>Thor/Vectors/VectorAlgebra2D.hpp\<close> is not part
  of the sources.  The spec lists the consumed vector arithmetic: "cross product
  (z-component), perpendicular, squared length".  \<open>CrossProduct\<close> is the z-component of
  the cross product of two plane vectors, \<open>PerpendicularVector\<close> turns a vector by a
  right angle, \<open>SquaredLength\<close> is the squared Euclidean norm.
\<close>

definition CrossProduct :: "Vector2f \<Rightarrow> Vector2f \<Rightarrow> real" where
  "CrossProduct a b = fst a * snd b - snd a * fst b"

definition PerpendicularVector :: "Vector2f \<Rightarrow> Vector2f" where
  "PerpendicularVector a = (- snd a, fst a)"

definition SquaredLength :: "Vector2f \<Rightarrow> real" where
  "SquaredLength a = fst a * fst a + snd a * snd a"

text \<open>\<open>SumVectorComponents\<close>: \<open>vector.x + vector.y\<close>.\<close>

definition SumVectorComponents :: "Vector2f \<Rightarrow> real" where
  "SumVectorComponents v = fst v + snd v"

subsection \<open>Arrays of three, errors\<close>

datatype 'a array3 = Array3 'a 'a 'a

fun get3 :: "'a array3 \<Rightarrow> nat \<Rightarrow> 'a" where
  "get3 (Array3 a b c) i = (if i = 0 then a else if i = 1 then b else c)"

fun set3 :: "'a array3 \<Rightarrow> nat \<Rightarrow> 'a \<Rightarrow> 'a array3" where
  "set3 (Array3 a b c) i v =
     (if i = 0 then Array3 v b c else if i = 1 then Array3 a v c else Array3 a b v)"

datatype error = AssertionFailed | InvalidIterator | OutOfRange

subsection \<open>Triangles\<close>

type_synonym VertexHeap = "nat \<Rightarrow> Vector2f"

text \<open>
  \<open>AdvancedTriangle\<close>: the three corners (addresses of vertices), the set of remaining
  vertices (\<open>AdvancedVertex*\<close>, indices into the container of all vertices, in the order
  of the \<open>std::set\<close>), the three adjacent triangles (\<open>OptTriangleIterator\<close>: \<open>None\<close>
  is \<open>valid == false\<close>, \<open>Some h\<close> the iterator \<open>h\<close>) and the flag.
\<close>

record AdvancedTriangle =
  mCorners :: "nat array3"
  mRemainingVertices :: "nat list"
  mAdjacentTriangles :: "nat option array3"
  mFlagged :: bool

text \<open>The constructor \<open>AdvancedTriangle(corner0, corner1, corner2)\<close>.\<close>

definition NewTriangle :: "nat \<Rightarrow> nat \<Rightarrow> nat \<Rightarrow> AdvancedTriangle" where
  "NewTriangle c0 c1 c2 =
     \<lparr> mCorners = Array3 c0 c1 c2, mRemainingVertices = [],
       mAdjacentTriangles = Array3 None None None, mFlagged = False \<rparr>"

definition At :: "VertexHeap \<Rightarrow> AdvancedTriangle \<Rightarrow> nat \<Rightarrow> Vector2f" where
  "At h t i = h (get3 (mCorners t) i)"

subsection \<open>Geometric predicates\<close>

definition ClockwiseOrientation :: "Vector2f \<Rightarrow> Vector2f \<Rightarrow> Vector2f \<Rightarrow> bool" where
  "ClockwiseOrientation v0 v1 v2 = (CrossProduct (vsub v1 v0) (vsub v2 v0) \<le> 0)"

record Circle =
  midPoint :: Vector2f
  squaredRadius :: real

text \<open>
  \<open>ComputeCircumcircle\<close>.  The assertion compares corner 0 with corner 1 and corner 0
  with corner 2.  The quotient \<open>intersection /= v.x * w.y - v.y * w.x\<close> is a
  \<open>float\<close> division: for a divisor zero it yields an infinity or a NaN and no
  failure, and the squared radius computed from it is an infinity or a NaN as well.
  The result \<open>None\<close> stands for such a circle; every comparison \<open>d < squaredRadius\<close>
  against it, with \<open>d\<close> computed from its midpoint, is false (see \<open>InsideCircle\<close>).
\<close>

definition ComputeCircumcircle :: "VertexHeap \<Rightarrow> AdvancedTriangle \<Rightarrow> error + Circle option" where
  "ComputeCircumcircle h t =
     (if \<not> (At h t 0 \<noteq> At h t 1 \<and> At h t 0 \<noteq> At h t 2) then Inl AssertionFailed
      else
        let p = vscale (1/2) (vadd (At h t 0) (At h t 1));
            q = vscale (1/2) (vadd (At h t 0) (At h t 2));
            v = PerpendicularVector (vsub p (At h t 0));
            w = PerpendicularVector (vsub q (At h t 0));
            ix = fst v * (snd p * fst w + fst q * snd w - snd q * fst w) - fst p * snd v * fst w;
            iy = snd w * (snd p * fst v + fst q * snd v - fst p * snd v) - snd q * snd v * fst w;
            d = fst v * snd w - snd v * fst w
        in if d = 0 then Inr None
           else let intersection = (ix / d, iy / d)
                in Inr (Some \<lparr> midPoint = intersection,
                                 squaredRadius = SquaredLength (vsub intersection (At h t 0)) \<rparr>))"

text \<open>
  The test \<open>SquaredLength(p - circle.midPoint) < circle.squaredRadius\<close> of
  \<open>EnsureLocalDelaunay\<close>.
\<close>

definition InsideCircle :: "Vector2f \<Rightarrow> Circle option \<Rightarrow> bool" where
  "InsideCircle p c =
     (case c of None \<Rightarrow> False
      | Some k \<Rightarrow> SquaredLength (vsub p (midPoint k)) < squaredRadius k)"

subsection \<open>Edges and the set of constrained edges\<close>

text \<open>
  \<open>AdvancedEdge\<close>: the two corners of \<open>Edge<Vertex>\<close>, as addresses.  The constructor
  calls \<open>OrderCorners\<close>, which swaps them when the coordinate sum of the first exceeds
  that of the second.
\<close>

type_synonym AdvancedEdge = "nat \<times> nat"

definition OrderCorners :: "VertexHeap \<Rightarrow> AdvancedEdge \<Rightarrow> AdvancedEdge" where
  "OrderCorners h e =
     (if SumVectorComponents (h (fst e)) > SumVectorComponents (h (snd e))
      then (snd e, fst e) else e)"

definition NewEdge :: "VertexHeap \<Rightarrow> nat \<Rightarrow> nat \<Rightarrow> AdvancedEdge" where
  "NewEdge h startPoint endPoint = OrderCorners h (startPoint, endPoint)"

text \<open>\<open>operator<\<close> of \<open>std::pair\<close>: lexicographic.\<close>

definition pair_less :: "('a::linorder) \<times> ('b::linorder) \<Rightarrow> 'a \<times> 'b \<Rightarrow> bool" where
  "pair_less a b = (fst a < fst b \<or> (\<not> fst b < fst a \<and> snd a < snd b))"

definition pair2_less :: "Vector2f \<times> Vector2f \<Rightarrow> Vector2f \<times> Vector2f \<Rightarrow> bool" where
  "pair2_less a b =
     (pair_less (fst a) (fst b) \<or> (\<not> pair_less (fst b) (fst a) \<and> pair_less (snd a) (snd b)))"

definition CompareEdges :: "VertexHeap \<Rightarrow> AdvancedEdge \<Rightarrow> AdvancedEdge \<Rightarrow> bool" where
  "CompareEdges h lhs rhs = pair2_less (h (fst lhs), h (snd lhs)) (h (fst rhs), h (snd rhs))"

text \<open>
  \<open>EdgeSet\<close> is \<open>std::set<AdvancedEdge, CompareEdges>\<close>: its elements in the order of
  the set.  \<open>find\<close> yields an element equivalent to the key, one that is neither less nor
  greater under the comparison, or \<open>end()\<close>.
\<close>

type_synonym EdgeSet = "AdvancedEdge list"

definition EdgeSet_find :: "VertexHeap \<Rightarrow> EdgeSet \<Rightarrow> AdvancedEdge \<Rightarrow> AdvancedEdge option" where
  "EdgeSet_find h edges k =
     find (\<lambda>e. \<not> CompareEdges h e k \<and> \<not> CompareEdges h k e) edges"

definition IsEdgeConstrained :: "VertexHeap \<Rightarrow> EdgeSet \<Rightarrow> nat \<Rightarrow> nat \<Rightarrow> error + bool" where
  "IsEdgeConstrained h constrainedEdges startPoint endPoint =
     (let adv = NewEdge h startPoint endPoint;
          candidate = EdgeSet_find h constrainedEdges adv
      in case candidate of
           None \<Rightarrow> Inr False
         | Some c \<Rightarrow>
             if h (fst adv) = h (fst c) \<and> h (snd adv) = h (snd c) then Inr True
             else Inl AssertionFailed)"

subsection \<open>Concrete vertex heaps\<close>


definition heap2 :: "Vector2f \<Rightarrow> Vector2f \<Rightarrow> VertexHeap" where
  "heap2 a b = (\<lambda>n. if n = 0 then a else b)"

subsection \<open>Vertices, containers, the triangle list\<close>

text \<open>
  \<open>AdvancedVertex\<close>: the pointer to the user's vertex and the iterator to the
  surrounding triangle (\<open>None\<close> is the default-constructed, singular iterator).
  \<open>AdvancedVertexCtr\<close> is the vector of all of them; an \<open>AdvancedVertex*\<close> or
  \<open>AdvancedVertex&\<close> is the index of its element.  \<open>VertexCtr\<close>, the vector of
  boundary vertices, is given by the addresses of its elements.

  \<open>TriangleList\<close> is \<open>std::list<AdvancedTriangle>\<close>.  Its iterators stay valid
  until their element is erased, so the list is kept as an arena: a \<open>TriangleIterator\<close>
  is the position at which \<open>push_back\<close> created the element, erasing an element leaves
  \<open>None\<close> at its position, and the elements of the list, in list order, are the
  entries that are not \<open>None\<close>.
\<close>

record AdvancedVertex =
  mUserVertex :: nat
  mSurroundingTriangle :: "nat option"

type_synonym AdvancedVertexCtr = "AdvancedVertex list"
type_synonym VertexCtr = "nat list"
type_synonym TriangleList = "AdvancedTriangle option list"

definition GetPosition :: "VertexHeap \<Rightarrow> AdvancedVertex \<Rightarrow> Vector2f" where
  "GetPosition h v = h (mUserVertex v)"


text \<open>Dereferencing a \<open>TriangleIterator\<close>.\<close>

definition deref :: "TriangleList \<Rightarrow> nat \<Rightarrow> error + AdvancedTriangle" where
  "deref triangles it =
     (if it < length triangles
      then (case triangles ! it of None \<Rightarrow> Inl InvalidIterator | Some t \<Rightarrow> Inr t)
      else Inl InvalidIterator)"

text \<open>\<open>triangles.remove_if(std::tr1::mem_fn(&AdvancedTriangle::IsFlagged))\<close>.\<close>

definition RemoveFlagged :: "TriangleList \<Rightarrow> TriangleList" where
  "RemoveFlagged triangles =
     map (\<lambda>e. case e of None \<Rightarrow> None | Some t \<Rightarrow> if mFlagged t then None else Some t) triangles"

subsection \<open>Bootstrap\<close>







subsection \<open>Results with errors\<close>

fun bind_err :: "error + 'a \<Rightarrow> ('a \<Rightarrow> error + 'b) \<Rightarrow> error + 'b" where
  "bind_err (Inl e) f = Inl e"
| "bind_err (Inr x) f = f x"

subsection \<open>The mesh: triangle list and vertex container\<close>

record Mesh =
  mesh_triangles :: TriangleList
  mesh_vertices :: AdvancedVertexCtr

text \<open>Member functions of \<open>AdvancedTriangle\<close>, applied through an iterator.\<close>

definition GetAdjacentTriangle :: "TriangleList \<Rightarrow> nat \<Rightarrow> nat \<Rightarrow> error + nat option" where
  "GetAdjacentTriangle tris it index =
     bind_err (deref tris it) (\<lambda>t. Inr (get3 (mAdjacentTriangles t) index))"

definition SetAdjacentTriangle ::
  "TriangleList \<Rightarrow> nat \<Rightarrow> nat \<Rightarrow> nat option \<Rightarrow> error + TriangleList" where
  "SetAdjacentTriangle tris it index adjacentTriangle =
     bind_err (deref tris it) (\<lambda>t.
       Inr (tris[it := Some (t\<lparr> mAdjacentTriangles := set3 (mAdjacentTriangles t) index adjacentTriangle \<rparr>)]))"

definition Flag :: "TriangleList \<Rightarrow> nat \<Rightarrow> error + TriangleList" where
  "Flag tris it = bind_err (deref tris it) (\<lambda>t. Inr (tris[it := Some (t\<lparr> mFlagged := True \<rparr>)]))"

text \<open>
  \<open>InsertTriangle\<close>: \<open>push_back\<close> and the iterator to the new, last element.
\<close>

definition InsertTriangle :: "TriangleList \<Rightarrow> nat \<Rightarrow> nat \<Rightarrow> nat \<Rightarrow> TriangleList \<times> nat" where
  "InsertTriangle tris corner0 corner1 corner2 =
     (tris @ [Some (NewTriangle corner0 corner1 corner2)], length tris)"

text \<open>
  The set of remaining vertices is a \<open>std::set<AdvancedVertex*, CompareVertexPtrs>\<close>:
  a list in the order of the comparison, which compares the positions
  lexicographically.  \<open>insert\<close> adds nothing when the set holds an element equivalent
  to the new one; \<open>erase(key)\<close> removes the elements equivalent to the key and returns
  their number.
\<close>

definition CompareVertexPtrs :: "VertexHeap \<Rightarrow> AdvancedVertexCtr \<Rightarrow> nat \<Rightarrow> nat \<Rightarrow> bool" where
  "CompareVertexPtrs h av lhs rhs =
     pair_less (GetPosition h (av ! lhs)) (GetPosition h (av ! rhs))"

fun set_insert :: "('a \<Rightarrow> 'a \<Rightarrow> bool) \<Rightarrow> 'a \<Rightarrow> 'a list \<Rightarrow> 'a list" where
  "set_insert lt p [] = [p]"
| "set_insert lt p (q # qs) =
     (if lt p q then p # q # qs
      else if lt q p then q # set_insert lt p qs
      else q # qs)"

definition set_erase :: "('a \<Rightarrow> 'a \<Rightarrow> bool) \<Rightarrow> 'a \<Rightarrow> 'a list \<Rightarrow> 'a list" where
  "set_erase lt p qs = filter (\<lambda>q. lt p q \<or> lt q p) qs"

definition AddVertex ::
  "VertexHeap \<Rightarrow> AdvancedVertexCtr \<Rightarrow> AdvancedTriangle \<Rightarrow> nat \<Rightarrow> AdvancedTriangle" where
  "AddVertex h av t vertexRef =
     t\<lparr> mRemainingVertices := set_insert (CompareVertexPtrs h av) vertexRef (mRemainingVertices t) \<rparr>"

text \<open>\<open>RemoveVertex(AdvancedVertex&)\<close>, with its assertion \<open>erased == 1\<close>.\<close>

definition RemoveVertex ::
  "VertexHeap \<Rightarrow> AdvancedVertexCtr \<Rightarrow> AdvancedTriangle \<Rightarrow> nat \<Rightarrow> error + AdvancedTriangle" where
  "RemoveVertex h av t vertexRef =
     (let remaining = set_erase (CompareVertexPtrs h av) vertexRef (mRemainingVertices t);
          erased = length (mRemainingVertices t) - length remaining
      in if erased = 1 then Inr (t\<lparr> mRemainingVertices := remaining \<rparr>)
         else Inl AssertionFailed)"

text \<open>
  \<open>RemoveVertex(VertexPtrIterator)\<close>: the iterator points to the element \<open>p\<close> of
  the set.
\<close>

definition RemoveVertexItr :: "AdvancedTriangle \<Rightarrow> nat \<Rightarrow> error + AdvancedTriangle" where
  "RemoveVertexItr t p =
     (if p \<in> set (mRemainingVertices t)
      then Inr (t\<lparr> mRemainingVertices := remove1 p (mRemainingVertices t) \<rparr>)
      else Inl InvalidIterator)"

subsection \<open>Sections and the transfer of vertices\<close>

definition IsVertexInSection ::
  "VertexHeap \<Rightarrow> AdvancedVertex \<Rightarrow> Vector2f \<Rightarrow> Vector2f \<Rightarrow> Vector2f \<Rightarrow> error + bool" where
  "IsVertexInSection h vertex center corner1 corner2 =
     (if \<not> ClockwiseOrientation corner1 corner2 center then Inl AssertionFailed
      else Inr (CrossProduct (vsub corner1 center) (vsub (GetPosition h vertex) center) < 0
              \<and> CrossProduct (vsub corner2 center) (vsub (GetPosition h vertex) center) \<ge> 0))"

text \<open>The overload of \<open>IsVertexInSection\<close> with two sections.\<close>

definition IsVertexInSection2 ::
  "VertexHeap \<Rightarrow> AdvancedVertex \<Rightarrow> Vector2f \<Rightarrow> Vector2f \<Rightarrow> bool" where
  "IsVertexInSection2 h vertex corner1 corner2 =
     (CrossProduct (vsub corner2 corner1) (vsub (GetPosition h vertex) corner1) \<ge> 0)"

text \<open>
  \<open>TransferVertex\<close>: \<open>sourceItr\<close> points to the element \<open>p\<close> of the source
  triangle's set.
\<close>

definition TransferVertex :: "VertexHeap \<Rightarrow> Mesh \<Rightarrow> nat \<Rightarrow> nat \<Rightarrow> nat \<Rightarrow> error + Mesh" where
  "TransferVertex h m sourceTriangle p destTriangle =
     (if \<not> p < length (mesh_vertices m) then Inl InvalidIterator
      else
        let av = (mesh_vertices m)[p := (mesh_vertices m ! p)\<lparr> mSurroundingTriangle := Some destTriangle \<rparr>]
        in bind_err (deref (mesh_triangles m) destTriangle) (\<lambda>dt.
             let tris1 = (mesh_triangles m)[destTriangle := Some (AddVertex h av dt p)]
             in bind_err (deref tris1 sourceTriangle) (\<lambda>st.
                  bind_err (RemoveVertexItr st p) (\<lambda>st'.
                    Inr \<lparr> mesh_triangles = tris1[sourceTriangle := Some st'],
                          mesh_vertices = av \<rparr>))))"

subsection \<open>Adjacency\<close>

definition UpdateAdjacentBackReferences ::
  "TriangleList \<Rightarrow> nat \<Rightarrow> nat option \<Rightarrow> nat option \<Rightarrow> error + TriangleList" where
  "UpdateAdjacentBackReferences tris oldTriangle newTriangle other =
     (case other of
        None \<Rightarrow> Inr tris
      | Some target \<Rightarrow>
          bind_err (deref tris target) (\<lambda>t.
            if get3 (mAdjacentTriangles t) 0 = Some oldTriangle
              then SetAdjacentTriangle tris target 0 newTriangle
            else if get3 (mAdjacentTriangles t) 1 = Some oldTriangle
              then SetAdjacentTriangle tris target 1 newTriangle
            else if get3 (mAdjacentTriangles t) 2 = Some oldTriangle
              then SetAdjacentTriangle tris target 2 newTriangle
            else Inl AssertionFailed))"

definition InitializeAdjacents ::
  "TriangleList \<Rightarrow> nat array3 \<Rightarrow> nat \<Rightarrow> nat \<Rightarrow> error + TriangleList" where
  "InitializeAdjacents tris newTriangles index oldTriangle =
     (let index1 = (index + 1) mod 3;
          index2 = (index + 2) mod 3
      in bind_err (GetAdjacentTriangle tris oldTriangle index2) (\<lambda>other.
         bind_err (SetAdjacentTriangle tris (get3 newTriangles index) 0
                     (Some (get3 newTriangles index1))) (\<lambda>tris1.
         bind_err (SetAdjacentTriangle tris1 (get3 newTriangles index) 1
                     (Some (get3 newTriangles index2))) (\<lambda>tris2.
         bind_err (SetAdjacentTriangle tris2 (get3 newTriangles index) 2 other) (\<lambda>tris3.
         UpdateAdjacentBackReferences tris3 oldTriangle (Some (get3 newTriangles index)) other)))))"

text \<open>
  \<open>TransferVertices3\<close>.  Every pass of the loop moves the element the iterator points
  to out of the old triangle's set and goes on with the next one, so the loop visits the
  elements the set holds at the start, in their order.
\<close>

fun TransferVertices3_loop ::
  "VertexHeap \<Rightarrow> nat \<Rightarrow> nat array3 \<Rightarrow> Vector2f \<Rightarrow> nat list \<Rightarrow> Mesh \<Rightarrow> error + Mesh" where
  "TransferVertices3_loop h oldTriangleItr newTriangles newCornerPosition [] m = Inr m"
| "TransferVertices3_loop h oldTriangleItr newTriangles newCornerPosition (p # ps) m =
     bind_err (deref (mesh_triangles m) oldTriangleItr) (\<lambda>oldTriangle.
       if \<not> p < length (mesh_vertices m) then Inl InvalidIterator
       else
         bind_err (IsVertexInSection h (mesh_vertices m ! p) newCornerPosition
                     (At h oldTriangle 0) (At h oldTriangle 1)) (\<lambda>in0.
           if in0 then
             bind_err (TransferVertex h m oldTriangleItr p (get3 newTriangles 0))
               (TransferVertices3_loop h oldTriangleItr newTriangles newCornerPosition ps)
           else
             bind_err (IsVertexInSection h (mesh_vertices m ! p) newCornerPosition
                         (At h oldTriangle 1) (At h oldTriangle 2)) (\<lambda>in1.
               if in1 then
                 bind_err (TransferVertex h m oldTriangleItr p (get3 newTriangles 1))
                   (TransferVertices3_loop h oldTriangleItr newTriangles newCornerPosition ps)
               else
                 bind_err (IsVertexInSection h (mesh_vertices m ! p) newCornerPosition
                             (At h oldTriangle 2) (At h oldTriangle 0)) (\<lambda>in2.
                   if \<not> in2 then Inl AssertionFailed
                   else
                     bind_err (TransferVertex h m oldTriangleItr p (get3 newTriangles 2))
                       (TransferVertices3_loop h oldTriangleItr newTriangles newCornerPosition ps)))))"

definition TransferVertices3 ::
  "VertexHeap \<Rightarrow> Mesh \<Rightarrow> nat \<Rightarrow> nat array3 \<Rightarrow> Vector2f \<Rightarrow> error + Mesh" where
  "TransferVertices3 h m oldTriangleItr newTriangles newCornerPosition =
     bind_err (deref (mesh_triangles m) oldTriangleItr) (\<lambda>oldTriangle.
       TransferVertices3_loop h oldTriangleItr newTriangles newCornerPosition
         (mRemainingVertices oldTriangle) m)"

subsection \<open>Arranging the corners of two adjacent triangles\<close>

type_synonym UintPair = "nat \<times> nat"

text \<open>
  The inner loop of \<open>ArrangeCorners\<close> that fills the output parameters, with the
  counter \<open>nbSharedCorners\<close>.  The assertions compare addresses of vertices.
\<close>

fun ArrangeCorners_fill ::
  "AdvancedTriangle \<Rightarrow> AdvancedTriangle \<Rightarrow> nat \<Rightarrow> (nat \<Rightarrow> bool) \<Rightarrow> nat list \<Rightarrow>
     nat \<times> UintPair \<times> UintPair \<times> UintPair \<Rightarrow> error + nat \<times> UintPair \<times> UintPair \<times> UintPair" where
  "ArrangeCorners_fill first second j match [] out = Inr out"
| "ArrangeCorners_fill first second j match (i # rest) (nbSharedCorners, sc1, sc2, dc) =
     (let firstIndex = (j + i) mod 3;
          secondIndex = 2 - i
      in if match i then
           (if get3 (mCorners first) firstIndex \<noteq> get3 (mCorners second) secondIndex
              then Inl AssertionFailed
            else if nbSharedCorners = 0
              then ArrangeCorners_fill first second j match rest
                     (nbSharedCorners + 1, (firstIndex, secondIndex), sc2, dc)
            else ArrangeCorners_fill first second j match rest
                     (nbSharedCorners + 1, sc1, (firstIndex, secondIndex), dc))
         else
           (if get3 (mCorners first) firstIndex = get3 (mCorners second) secondIndex
              then Inl AssertionFailed
            else ArrangeCorners_fill first second j match rest
                   (nbSharedCorners, sc1, sc2, (firstIndex, secondIndex))))"

text \<open>
  The outer loop over the rotation \<open>j\<close>; after the loop stands \<open>assert(false)\<close>.
  The result is (sharedCornerIndices1, sharedCornerIndices2, disjointCornerIndices).
\<close>

fun ArrangeCorners_loop ::
  "VertexHeap \<Rightarrow> AdvancedTriangle \<Rightarrow> AdvancedTriangle \<Rightarrow> nat list \<Rightarrow>
     error + UintPair \<times> UintPair \<times> UintPair" where
  "ArrangeCorners_loop h first second [] = Inl AssertionFailed"
| "ArrangeCorners_loop h first second (j # js) =
     (let match = (\<lambda>i. At h first ((j + i) mod 3) = At h second (2 - i))
      in if length (filter match [0, 1, 2]) = 2 then
           bind_err (ArrangeCorners_fill first second j match [0, 1, 2] (0, (0, 0), (0, 0), (0, 0)))
             (\<lambda>(nbSharedCorners, sc1, sc2, dc).
                if \<not> ClockwiseOrientation (At h first (fst sc1)) (At h first (fst sc2))
                       (At h first (fst dc))
                then Inr (sc2, sc1, dc)
                else Inr (sc1, sc2, dc))
         else ArrangeCorners_loop h first second js)"

definition ArrangeCorners ::
  "VertexHeap \<Rightarrow> AdvancedTriangle \<Rightarrow> AdvancedTriangle \<Rightarrow> error + UintPair \<times> UintPair \<times> UintPair" where
  "ArrangeCorners h first second = ArrangeCorners_loop h first second [0, 1, 2]"

subsection \<open>Edge flip\<close>

text \<open>The loop of \<open>TransferVertices2Impl\<close>, over the set of \<open>oldTriangle\<close>.\<close>

fun TransferVertices2Impl_loop ::
  "VertexHeap \<Rightarrow> nat \<Rightarrow> nat \<Rightarrow> nat \<Rightarrow> nat \<Rightarrow> UintPair \<Rightarrow> nat \<Rightarrow> nat list \<Rightarrow> Mesh \<Rightarrow> error + Mesh" where
  "TransferVertices2Impl_loop h oldFirst oldSecond newFirst newSecond dc oldTriangle [] m = Inr m"
| "TransferVertices2Impl_loop h oldFirst oldSecond newFirst newSecond dc oldTriangle (p # ps) m =
     bind_err (deref (mesh_triangles m) oldFirst) (\<lambda>ft.
     bind_err (deref (mesh_triangles m) oldSecond) (\<lambda>st.
       if \<not> p < length (mesh_vertices m) then Inl InvalidIterator
       else if IsVertexInSection2 h (mesh_vertices m ! p) (At h ft (fst dc)) (At h st (snd dc)) then
         bind_err (TransferVertex h m oldTriangle p newFirst)
           (TransferVertices2Impl_loop h oldFirst oldSecond newFirst newSecond dc oldTriangle ps)
       else if \<not> IsVertexInSection2 h (mesh_vertices m ! p) (At h st (snd dc)) (At h ft (fst dc)) then
         Inl AssertionFailed
       else
         bind_err (TransferVertex h m oldTriangle p newSecond)
           (TransferVertices2Impl_loop h oldFirst oldSecond newFirst newSecond dc oldTriangle ps)))"

definition TransferVertices2Impl ::
  "VertexHeap \<Rightarrow> Mesh \<Rightarrow> nat \<Rightarrow> nat \<Rightarrow> nat \<Rightarrow> nat \<Rightarrow> UintPair \<Rightarrow> nat \<Rightarrow> error + Mesh" where
  "TransferVertices2Impl h m oldFirst oldSecond newFirst newSecond dc oldTriangle =
     bind_err (deref (mesh_triangles m) oldTriangle) (\<lambda>t.
       TransferVertices2Impl_loop h oldFirst oldSecond newFirst newSecond dc oldTriangle
         (mRemainingVertices t) m)"

definition TransferVertices2 ::
  "VertexHeap \<Rightarrow> Mesh \<Rightarrow> nat \<Rightarrow> nat \<Rightarrow> nat \<Rightarrow> nat \<Rightarrow> UintPair \<Rightarrow> error + Mesh" where
  "TransferVertices2 h m oldFirst oldSecond newFirst newSecond dc =
     bind_err (TransferVertices2Impl h m oldFirst oldSecond newFirst newSecond dc oldFirst) (\<lambda>m1.
       TransferVertices2Impl h m1 oldFirst oldSecond newFirst newSecond dc oldSecond)"

definition UpdateAdjacentRelation ::
  "TriangleList \<Rightarrow> nat \<Rightarrow> nat \<Rightarrow> nat \<Rightarrow> nat \<Rightarrow> error + TriangleList" where
  "UpdateAdjacentRelation tris oldTriangle oldIndex newTriangle newIndex =
     bind_err (GetAdjacentTriangle tris oldTriangle oldIndex) (\<lambda>other.
     bind_err (SetAdjacentTriangle tris newTriangle newIndex other) (\<lambda>tris1.
       UpdateAdjacentBackReferences tris1 oldTriangle (Some newTriangle) other))"

text \<open>
  \<open>FlipEdges\<close>; the result is the mesh and the pair (newFirst, newSecond).
\<close>

definition FlipEdges ::
  "VertexHeap \<Rightarrow> Mesh \<Rightarrow> nat \<Rightarrow> nat \<Rightarrow> UintPair \<Rightarrow> UintPair \<Rightarrow> UintPair \<Rightarrow> error + Mesh \<times> nat \<times> nat" where
  "FlipEdges h m oldFirst oldSecond sc1 sc2 dc =
     bind_err (deref (mesh_triangles m) oldFirst) (\<lambda>ft.
     bind_err (deref (mesh_triangles m) oldSecond) (\<lambda>st.
       let (tris1, newFirst) = InsertTriangle (mesh_triangles m)
               (get3 (mCorners ft) (fst sc1)) (get3 (mCorners st) (snd dc)) (get3 (mCorners ft) (fst dc));
           (tris2, newSecond) = InsertTriangle tris1
               (get3 (mCorners st) (snd sc2)) (get3 (mCorners ft) (fst dc)) (get3 (mCorners st) (snd dc))
       in bind_err (TransferVertices2 h (m\<lparr> mesh_triangles := tris2 \<rparr>)
                      oldFirst oldSecond newFirst newSecond dc) (\<lambda>m1.
          bind_err (UpdateAdjacentRelation (mesh_triangles m1) oldFirst (fst sc1) newSecond 2) (\<lambda>t1.
          bind_err (UpdateAdjacentRelation t1 oldFirst (fst sc2) newFirst 1) (\<lambda>t2.
          bind_err (UpdateAdjacentRelation t2 oldSecond (snd sc1) newSecond 1) (\<lambda>t3.
          bind_err (UpdateAdjacentRelation t3 oldSecond (snd sc2) newFirst 2) (\<lambda>t4.
          bind_err (SetAdjacentTriangle t4 newFirst 0 (Some newSecond)) (\<lambda>t5.
          bind_err (SetAdjacentTriangle t5 newSecond 0 (Some newFirst)) (\<lambda>t6.
          bind_err (Flag t6 oldFirst) (\<lambda>t7.
          bind_err (Flag t7 oldSecond) (\<lambda>t8.
            Inr (m1\<lparr> mesh_triangles := t8 \<rparr>, newFirst, newSecond))))))))))))"

subsection \<open>Local Delaunay repair\<close>

definition ContainsVertex :: "VertexCtr \<Rightarrow> nat \<Rightarrow> bool" where
  "ContainsVertex container vertex = list_ex (\<lambda>a. a = vertex) container"

definition SharedBoundary :: "VertexCtr \<Rightarrow> AdvancedTriangle \<Rightarrow> UintPair \<Rightarrow> UintPair \<Rightarrow> bool" where
  "SharedBoundary boundaryVertices first sc1 sc2 =
     (ContainsVertex boundaryVertices (get3 (mCorners first) (fst sc1))
      \<or> ContainsVertex boundaryVertices (get3 (mCorners first) (fst sc2)))"

definition DisjointBoundary ::
  "VertexCtr \<Rightarrow> AdvancedTriangle \<Rightarrow> AdvancedTriangle \<Rightarrow> UintPair \<Rightarrow> bool" where
  "DisjointBoundary boundaryVertices first second dc =
     (ContainsVertex boundaryVertices (get3 (mCorners first) (fst dc))
      \<or> ContainsVertex boundaryVertices (get3 (mCorners second) (snd dc)))"

text \<open>
  \<open>Intersect(edge, edge)\<close>, the intersection test of two edges, is declared in a header
  that is not part of the sources.  The functions that use it take it as the parameter
  \<open>isect\<close>.
\<close>

type_synonym Intersect = "VertexHeap \<Rightarrow> AdvancedEdge \<Rightarrow> AdvancedEdge \<Rightarrow> bool"

definition IntersectsEdge :: "Intersect \<Rightarrow> VertexHeap \<Rightarrow> AdvancedEdge \<Rightarrow> EdgeSet \<Rightarrow> bool" where
  "IntersectsEdge isect h edge constrainedEdges = list_ex (\<lambda>e. isect h edge e) constrainedEdges"

text \<open>
  The two booleans \<open>disjointEdgeEnforced\<close> and \<open>sharedEdgeEnforced\<close> of
  \<open>EnsureLocalDelaunay\<close>, as functions of the two triangles and the arranged corners:
  an edge is enforced when one of its corners is a boundary vertex or when it intersects
  a constrained edge.
\<close>

definition DisjointEdgeEnforced ::
  "Intersect \<Rightarrow> VertexHeap \<Rightarrow> VertexCtr \<Rightarrow> EdgeSet \<Rightarrow> AdvancedTriangle \<Rightarrow> AdvancedTriangle \<Rightarrow>
     UintPair \<Rightarrow> bool" where
  "DisjointEdgeEnforced isect h boundaryVertices constrainedEdges first second dc =
     (DisjointBoundary boundaryVertices first second dc \<or>
      IntersectsEdge isect h
        (NewEdge h (get3 (mCorners first) (fst dc)) (get3 (mCorners second) (snd dc)))
        constrainedEdges)"

definition SharedEdgeEnforced ::
  "Intersect \<Rightarrow> VertexHeap \<Rightarrow> VertexCtr \<Rightarrow> EdgeSet \<Rightarrow> AdvancedTriangle \<Rightarrow>
     UintPair \<Rightarrow> UintPair \<Rightarrow> bool" where
  "SharedEdgeEnforced isect h boundaryVertices constrainedEdges first sc1 sc2 =
     (SharedBoundary boundaryVertices first sc1 sc2 \<or>
      IntersectsEdge isect h
        (NewEdge h (get3 (mCorners first) (fst sc1)) (get3 (mCorners first) (fst sc2)))
        constrainedEdges)"

text \<open>
  The recursion of \<open>EnsureLocalDelaunay\<close> through \<open>ChangeEdgeSituation\<close> and
  \<open>EnsureLocalDelaunayAdjacent\<close> carries a bound on its depth: \<open>None\<close> is the result
  of a call whose recursion exceeds the bound.  \<open>EnsureLocalDelaunay\<close> returns the
  boolean and the mesh.
\<close>

fun bind_fuel :: "(error + 'a) option \<Rightarrow> ('a \<Rightarrow> (error + 'b) option) \<Rightarrow> (error + 'b) option" where
  "bind_fuel None f = None"
| "bind_fuel (Some (Inl e)) f = Some (Inl e)"
| "bind_fuel (Some (Inr x)) f = f x"

definition lift_err :: "error + 'a \<Rightarrow> (error + 'a) option" where
  "lift_err r = Some r"

function EnsureLocalDelaunay ::
    "nat \<Rightarrow> Intersect \<Rightarrow> VertexHeap \<Rightarrow> Mesh \<Rightarrow> nat \<Rightarrow> nat \<Rightarrow> VertexCtr \<Rightarrow> EdgeSet \<Rightarrow>
       (error + bool \<times> Mesh) option"
  and ChangeEdgeSituation ::
    "nat \<Rightarrow> Intersect \<Rightarrow> VertexHeap \<Rightarrow> Mesh \<Rightarrow> nat \<Rightarrow> nat \<Rightarrow> VertexCtr \<Rightarrow> EdgeSet \<Rightarrow>
       UintPair \<Rightarrow> UintPair \<Rightarrow> UintPair \<Rightarrow> (error + Mesh) option"
  and EnsureLocalDelaunayAdjacent ::
    "nat \<Rightarrow> Intersect \<Rightarrow> VertexHeap \<Rightarrow> Mesh \<Rightarrow> nat \<Rightarrow> nat \<Rightarrow> VertexCtr \<Rightarrow> EdgeSet \<Rightarrow>
       (error + bool \<times> Mesh) option"
  where
  "EnsureLocalDelaunay 0 isect h m first second boundaryVertices constrainedEdges = None"
| "EnsureLocalDelaunay (Suc n) isect h m first second boundaryVertices constrainedEdges =
     bind_fuel (lift_err (deref (mesh_triangles m) first)) (\<lambda>ft.
       if mFlagged ft then Some (Inr (False, m))
       else
     bind_fuel (lift_err (deref (mesh_triangles m) second)) (\<lambda>st.
       if mFlagged st then Some (Inr (False, m))
       else
     bind_fuel (lift_err (ArrangeCorners h ft st)) (\<lambda>(sc1, sc2, dc).
       let disjointBoundary = DisjointBoundary boundaryVertices ft st dc;
           sharedBoundary = SharedBoundary boundaryVertices ft sc1 sc2;
           sharedBlocking = IntersectsEdge isect h
             (NewEdge h (get3 (mCorners ft) (fst sc1)) (get3 (mCorners ft) (fst sc2)))
             constrainedEdges;
           disjointBlocking = IntersectsEdge isect h
             (NewEdge h (get3 (mCorners ft) (fst dc)) (get3 (mCorners st) (snd dc)))
             constrainedEdges;
           disjointEdgeEnforced = (disjointBoundary \<or> disjointBlocking);
           sharedEdgeEnforced = (sharedBoundary \<or> sharedBlocking)
       in if disjointEdgeEnforced \<and> \<not> sharedEdgeEnforced then Some (Inr (False, m))
          else if sharedEdgeEnforced \<and> \<not> disjointEdgeEnforced then
            (if ClockwiseOrientation (At h ft (fst dc)) (At h st (snd dc)) (At h ft (fst sc1))
                \<or> ClockwiseOrientation (At h st (snd dc)) (At h ft (fst dc)) (At h ft (fst sc2))
             then Some (Inr (False, m))
             else bind_fuel (ChangeEdgeSituation n isect h m first second boundaryVertices
                               constrainedEdges sc1 sc2 dc)
                    (\<lambda>m'. Some (Inr (True, m'))))
          else
            bind_fuel (lift_err (ComputeCircumcircle h ft)) (\<lambda>circle.
            bind_fuel (lift_err (ComputeCircumcircle h st)) (\<lambda>circle2.
              if InsideCircle (At h st (snd dc)) circle \<and> InsideCircle (At h ft (fst dc)) circle2
              then bind_fuel (ChangeEdgeSituation n isect h m first second boundaryVertices
                                constrainedEdges sc1 sc2 dc)
                     (\<lambda>m'. Some (Inr (True, m')))
              else Some (Inr (False, m)))))))"
| "ChangeEdgeSituation n isect h m first second boundaryVertices constrainedEdges sc1 sc2 dc =
     bind_fuel (lift_err (FlipEdges h m first second sc1 sc2 dc)) (\<lambda>(m0, newFirst, newSecond).
     bind_fuel (EnsureLocalDelaunayAdjacent n isect h m0 newFirst 1 boundaryVertices constrainedEdges)
       (\<lambda>(r1, m1).
     bind_fuel (EnsureLocalDelaunayAdjacent n isect h m1 newFirst 2 boundaryVertices constrainedEdges)
       (\<lambda>(r2, m2).
     bind_fuel (EnsureLocalDelaunayAdjacent n isect h m2 newSecond 1 boundaryVertices constrainedEdges)
       (\<lambda>(r3, m3).
     bind_fuel (EnsureLocalDelaunayAdjacent n isect h m3 newSecond 2 boundaryVertices constrainedEdges)
       (\<lambda>(r4, m4). Some (Inr m4))))))"
| "EnsureLocalDelaunayAdjacent n isect h m triangleItr adjacentIndex boundaryVertices constrainedEdges =
     bind_fuel (lift_err (GetAdjacentTriangle (mesh_triangles m) triangleItr adjacentIndex)) (\<lambda>itr.
       case itr of
         None \<Rightarrow> Some (Inr (False, m))
       | Some target \<Rightarrow>
           EnsureLocalDelaunay n isect h m triangleItr target boundaryVertices constrainedEdges)"
  by pat_completeness auto
termination
  by (relation "measure (\<lambda>x. case x of
        Inl (n, _) \<Rightarrow> 3 * n
      | Inr (Inl (n, _)) \<Rightarrow> 3 * n + 2
      | Inr (Inr (n, _)) \<Rightarrow> 3 * n + 1)") auto

declare EnsureLocalDelaunay.simps [simp del] ChangeEdgeSituation.simps [simp del]
  EnsureLocalDelaunayAdjacent.simps [simp del]

subsection \<open>Insertion of a point\<close>

text \<open>
  \<open>InsertPoint\<close> in two parts.  \<open>InsertPoint_split\<close> is the function up to and
  including \<open>triangles.erase(oldTriangleItr)\<close>: the split of the surrounding triangle
  into three.  Its result is the mesh and the array \<open>newTriangles\<close>.  The parameter
  \<open>vertex\<close> is the index of the \<open>AdvancedVertex\<close> in the container.
\<close>

definition InsertPoint_split ::
  "VertexHeap \<Rightarrow> Mesh \<Rightarrow> nat \<Rightarrow> error + Mesh \<times> nat array3" where
  "InsertPoint_split h m vertex =
     (if \<not> vertex < length (mesh_vertices m) then Inl InvalidIterator
      else case mSurroundingTriangle (mesh_vertices m ! vertex) of
        None \<Rightarrow> Inl InvalidIterator
      | Some oldTriangleItr \<Rightarrow>
          bind_err (deref (mesh_triangles m) oldTriangleItr) (\<lambda>oldTriangle.
            if \<not> ClockwiseOrientation (At h oldTriangle 0) (At h oldTriangle 1) (At h oldTriangle 2)
            then Inl AssertionFailed
            else
              let userVertex = mUserVertex (mesh_vertices m ! vertex);
                  (tris1, n0) = InsertTriangle (mesh_triangles m)
                     (get3 (mCorners oldTriangle) 0) (get3 (mCorners oldTriangle) 1) userVertex;
                  (tris2, n1) = InsertTriangle tris1
                     (get3 (mCorners oldTriangle) 1) (get3 (mCorners oldTriangle) 2) userVertex;
                  (tris3, n2) = InsertTriangle tris2
                     (get3 (mCorners oldTriangle) 2) (get3 (mCorners oldTriangle) 0) userVertex;
                  newTriangles = Array3 n0 n1 n2
              in bind_err (InitializeAdjacents tris3 newTriangles 0 oldTriangleItr) (\<lambda>tris4.
                 bind_err (InitializeAdjacents tris4 newTriangles 1 oldTriangleItr) (\<lambda>tris5.
                 bind_err (InitializeAdjacents tris5 newTriangles 2 oldTriangleItr) (\<lambda>tris6.
                 let newCornerPosition = GetPosition h (mesh_vertices m ! vertex)
                 in bind_err (deref tris6 oldTriangleItr) (\<lambda>oldTriangle'.
                    bind_err (RemoveVertex h (mesh_vertices m) oldTriangle' vertex) (\<lambda>oldTriangle''.
                    bind_err (TransferVertices3 h
                                (m\<lparr> mesh_triangles := tris6[oldTriangleItr := Some oldTriangle''] \<rparr>)
                                oldTriangleItr newTriangles newCornerPosition) (\<lambda>m1.
                      Inr (m1\<lparr> mesh_triangles := (mesh_triangles m1)[oldTriangleItr := None] \<rparr>,
                           newTriangles)))))))))"

text \<open>
  The loop of \<open>InsertPoint\<close> over the three new triangles that repairs the Delaunay
  condition, one pass.
\<close>

definition InsertPoint_repair ::
  "nat \<Rightarrow> Intersect \<Rightarrow> VertexHeap \<Rightarrow> Mesh \<Rightarrow> nat \<Rightarrow> VertexCtr \<Rightarrow> EdgeSet \<Rightarrow> (error + Mesh) option" where
  "InsertPoint_repair n isect h m newTriangle boundaryVertices constrainedEdges =
     bind_fuel (lift_err (GetAdjacentTriangle (mesh_triangles m) newTriangle 2)) (\<lambda>adjacent.
       case adjacent of
         None \<Rightarrow> Some (Inr m)
       | Some target \<Rightarrow>
           bind_fuel (EnsureLocalDelaunay n isect h m newTriangle target boundaryVertices
                        constrainedEdges)
             (\<lambda>(r, m'). Some (Inr m')))"

definition InsertPoint ::
  "nat \<Rightarrow> Intersect \<Rightarrow> VertexHeap \<Rightarrow> Mesh \<Rightarrow> nat \<Rightarrow> VertexCtr \<Rightarrow> EdgeSet \<Rightarrow> (error + Mesh) option" where
  "InsertPoint n isect h m vertex boundaryVertices constrainedEdges =
     bind_fuel (lift_err (InsertPoint_split h m vertex)) (\<lambda>(m0, newTriangles).
     bind_fuel (InsertPoint_repair n isect h m0 (get3 newTriangles 0) boundaryVertices constrainedEdges)
       (\<lambda>m1.
     bind_fuel (InsertPoint_repair n isect h m1 (get3 newTriangles 1) boundaryVertices constrainedEdges)
       (\<lambda>m2.
     bind_fuel (InsertPoint_repair n isect h m2 (get3 newTriangles 2) boundaryVertices constrainedEdges)
       (\<lambda>m3.
       Some (Inr (m3\<lparr> mesh_triangles := RemoveFlagged (mesh_triangles m3) \<rparr>))))))"

subsection \<open>Removal of the triangles outside the polygon\<close>












text \<open>
  Reachability, in the words of the claim: a link leads from the triangle \<open>a\<close> to the
  triangle \<open>b\<close> when an adjacency slot \<open>i\<close> of \<open>a\<close> holds \<open>b\<close> and the edge
  it crosses, the edge opposite corner \<open>i\<close> (between the corners \<open>(i+1) % 3\<close> and
  \<open>(i+2) % 3\<close>), is not a constrained edge.  A triangle is reachable from the start
  triangle when a chain of links leads to it.
\<close>

definition LinkFrom :: "VertexHeap \<Rightarrow> EdgeSet \<Rightarrow> AdvancedTriangle \<Rightarrow> nat \<Rightarrow> bool" where
  "LinkFrom h constrainedEdges t b =
     list_ex (\<lambda>i. get3 (mAdjacentTriangles t) i = Some b \<and>
                  IsEdgeConstrained h constrainedEdges
                    (get3 (mCorners t) ((i + 1) mod 3))
                    (get3 (mCorners t) ((i + 2) mod 3)) = Inr False)
       [0, 1, 2]"







subsection \<open>A concrete triangle list\<close>







subsection \<open>Concrete meshes of two adjacent triangles\<close>

text \<open>
  Two triangles over the vertices s1 = (0,2), s2 = (0,-2), df = (-1,0), ds at the
  addresses 0, 1, 2, 3: the first triangle is (s1, s2, df), the second (s2, s1, ds), both
  clockwise, adjacent across the edge s1 s2.  One vertex, at (-1/4, 1/2) and address 4,
  remains in the first triangle.  In \<open>quad_heap\<close> ds = (1,0): the quadrilateral is
  convex and each disjoint corner is inside the other triangle's circumcircle.  In
  \<open>reflex_heap\<close> ds = (1,5): the quadrilateral has a reflex corner at s1.  In
  \<open>far_heap\<close> ds = (9,0): convex, and no disjoint corner is inside the other
  circumcircle.
\<close>

definition quad_heap :: VertexHeap where
  "quad_heap = (\<lambda>n. if n = 0 then (0, 2) else if n = 1 then (0, - 2) else if n = 2 then (- 1, 0)
                     else if n = 3 then (1, 0) else (- (1 / 4), 1 / 2))"

definition reflex_heap :: VertexHeap where
  "reflex_heap = quad_heap(3 := (1, 5))"

definition far_heap :: VertexHeap where
  "far_heap = quad_heap(3 := (9, 0))"

definition quad_first :: AdvancedTriangle where
  "quad_first = \<lparr> mCorners = Array3 0 1 2, mRemainingVertices = [0],
                  mAdjacentTriangles = Array3 None None (Some 1), mFlagged = False \<rparr>"

definition quad_second :: AdvancedTriangle where
  "quad_second = \<lparr> mCorners = Array3 1 0 3, mRemainingVertices = [],
                   mAdjacentTriangles = Array3 None None (Some 0), mFlagged = False \<rparr>"

definition quad_mesh :: Mesh where
  "quad_mesh = \<lparr> mesh_triangles = [Some quad_first, Some quad_second],
                 mesh_vertices = [\<lparr> mUserVertex = 4, mSurroundingTriangle = Some 0 \<rparr>] \<rparr>"

text \<open>An intersection test for inputs without constrained edges.\<close>

definition no_intersect :: Intersect where
  "no_intersect h e1 e2 = False"

text \<open>
  \<open>quad_mesh\<close> after the flip of the edge s1 s2: the old triangles are flagged, the new
  triangles (s1, ds, df) and (s2, df, ds) are adjacent to each other, and the remaining
  vertex has moved to the first of them.
\<close>

definition quad_flipped :: Mesh where
  "quad_flipped =
     \<lparr> mesh_triangles =
         [Some \<lparr> mCorners = Array3 0 1 2, mRemainingVertices = [],
                 mAdjacentTriangles = Array3 None None (Some 1), mFlagged = True \<rparr>,
          Some \<lparr> mCorners = Array3 1 0 3, mRemainingVertices = [],
                 mAdjacentTriangles = Array3 None None (Some 0), mFlagged = True \<rparr>,
          Some \<lparr> mCorners = Array3 0 3 2, mRemainingVertices = [0],
                 mAdjacentTriangles = Array3 (Some 3) None None, mFlagged = False \<rparr>,
          Some \<lparr> mCorners = Array3 1 2 3, mRemainingVertices = [],
                 mAdjacentTriangles = Array3 (Some 2) None None, mFlagged = False \<rparr>],
       mesh_vertices = [\<lparr> mUserVertex = 4, mSurroundingTriangle = Some 2 \<rparr>] \<rparr>"

text \<open>\<open>quad_mesh\<close> with its first triangle flagged.\<close>

definition quad_mesh_flagged :: Mesh where
  "quad_mesh_flagged =
     quad_mesh\<lparr> mesh_triangles := [Some (quad_first\<lparr> mFlagged := True \<rparr>), Some quad_second] \<rparr>"

subsection \<open>The merged quadrilateral\<close>



subsection \<open>The adjacency structure and its symmetry\<close>

text \<open>
  What the adjacency of a triangle list consists of: the content of the adjacency slot
  \<open>i\<close> of the triangle at \<open>a\<close> (\<open>None\<close> also when there is no triangle at \<open>a\<close>),
  whether there is a triangle at \<open>a\<close> that is not flagged (a live triangle), and whether
  some slot of \<open>a\<close> holds \<open>b\<close>.
\<close>

definition AdjacentSlot :: "TriangleList \<Rightarrow> nat \<Rightarrow> nat \<Rightarrow> nat option" where
  "AdjacentSlot tris a i =
     (case deref tris a of Inl e \<Rightarrow> None | Inr t \<Rightarrow> get3 (mAdjacentTriangles t) i)"

definition Live :: "TriangleList \<Rightarrow> nat \<Rightarrow> bool" where
  "Live tris a = (case deref tris a of Inl e \<Rightarrow> False | Inr t \<Rightarrow> \<not> mFlagged t)"

definition PointsTo :: "TriangleList \<Rightarrow> nat \<Rightarrow> nat \<Rightarrow> bool" where
  "PointsTo tris a b = list_ex (\<lambda>i. AdjacentSlot tris a i = Some b) [0, 1, 2]"

text \<open>
  Adjacency symmetry, in the words of the claim: if a slot of the live triangle A holds a
  handle to the live triangle B, then some slot of B holds a handle back to A.
\<close>

definition AdjacencySymmetric :: "TriangleList \<Rightarrow> bool" where
  "AdjacencySymmetric tris =
     list_all (\<lambda>a. list_all (\<lambda>b. Live tris a \<and> Live tris b \<and> PointsTo tris a b
                                  \<longrightarrow> PointsTo tris b a)
                     [0 ..< length tris])
       [0 ..< length tris]"

text \<open>
  Every handle in an adjacency slot is the position of an element that \<open>push_back\<close> has
  created (the element may have been erased since).
\<close>

definition HandlesInRange :: "TriangleList \<Rightarrow> bool" where
  "HandlesInRange tris =
     list_all (\<lambda>a. list_all (\<lambda>i. case AdjacentSlot tris a i of
                                    None \<Rightarrow> True
                                  | Some b \<Rightarrow> b < length tris) [0, 1, 2])
       [0 ..< length tris]"

text \<open>
  The part of the triangle list that the adjacency structure depends on: for every
  position, whether it holds a triangle, and the triangle's slots and flag.
\<close>

definition AdjacencyView :: "TriangleList \<Rightarrow> (nat option array3 \<times> bool) option list" where
  "AdjacencyView tris = map (map_option (\<lambda>t. (mAdjacentTriangles t, mFlagged t))) tris"

text \<open>
  While an operation rewires the mesh, symmetry holds outside the set \<open>D\<close> of the
  triangles that the operation is replacing, and up to the pairs \<open>X\<close> of new triangles
  that it still has to link to each other.
\<close>

definition SymmetricExcept :: "nat set \<Rightarrow> (nat \<times> nat) set \<Rightarrow> TriangleList \<Rightarrow> bool" where
  "SymmetricExcept D X tris =
     (\<forall>a b. Live tris a \<and> Live tris b \<and> a \<notin> D \<and> b \<notin> D \<and> PointsTo tris a b
            \<longrightarrow> PointsTo tris b a \<or> (a, b) \<in> X)"

text \<open>
  The state of the triangle list between two steps of an operation: the list has \<open>n\<close>
  elements, the handles are in range, symmetry holds outside \<open>D\<close> and up to \<open>X\<close>, and
  the slots listed in \<open>G\<close> hold the listed values.
\<close>

definition MidState ::
  "nat \<Rightarrow> nat set \<Rightarrow> (nat \<times> nat) set \<Rightarrow> (nat \<times> nat \<times> nat option) set \<Rightarrow> TriangleList \<Rightarrow> bool" where
  "MidState n D X G tris =
     (length tris = n \<and> HandlesInRange tris \<and> SymmetricExcept D X tris \<and>
      (\<forall>(x, s, v) \<in> G. s \<in> {0, 1, 2} \<and> AdjacentSlot tris x s = v))"

section \<open>Properties\<close>

subsection \<open>Orientation\<close>

lemma CrossProduct_coords:
  "CrossProduct (vsub (bx, by) (ax, ay)) (vsub (cx, cy) (ax, ay)) =
     (bx - ax) * (cy - ay) - (by - ay) * (cx - ax)"
  by (simp add: CrossProduct_def vsub_def)

text \<open>
  C4, as stated: for a collinear triple the orientation predicate returns false.  It does
  not: the points (0,0), (1,0), (2,0) are collinear, their cross product is zero, and
  the predicate returns true.
\<close>

theorem C4_tie_counterexample:
  "CrossProduct (vsub (1, 0) (0, 0)) (vsub (2, 0) (0, 0)) = 0 \<and>
   ClockwiseOrientation (0, 0) (1, 0) (2, 0)"
  by (simp add: ClockwiseOrientation_def CrossProduct_def vsub_def)

text \<open>
  C4, amended: for all points a, b, c the orientation predicate returns true exactly when
  the z-component of the cross product of (b - a) and (c - a),
  \<open>(bx - ax) * (cy - ay) - (by - ay) * (cx - ax)\<close>, is negative or zero; a collinear
  triple (cross product exactly zero) is reported as clockwise.
\<close>

theorem C4_orientation:
  "ClockwiseOrientation (ax, ay) (bx, by) (cx, cy) =
     ((bx - ax) * (cy - ay) - (by - ay) * (cx - ax) \<le> 0) \<and>
   (CrossProduct (vsub b a) (vsub c a) = 0 \<longrightarrow> ClockwiseOrientation a b c)"
  by (simp add: ClockwiseOrientation_def CrossProduct_coords)

theorem C4_orientation_witness:
  "ClockwiseOrientation (0, 0) (0, 1) (1, 0) \<and> \<not> ClockwiseOrientation (0, 0) (1, 0) (0, 1) \<and>
   CrossProduct (vsub (3, 3) (1, 1)) (vsub (2, 2) (1, 1)) = 0 \<and>
   ClockwiseOrientation (1, 1) (3, 3) (2, 2)"
proof -
  have z: "CrossProduct (vsub (3, 3) (1, 1)) (vsub (2, 2) (1, 1)) = 0"
    by (simp add: CrossProduct_def vsub_def)
  have a: "ClockwiseOrientation (0, 0) (0, 1) (1, 0)"
    using C4_orientation [of 0 0 0 1 1 0] by simp
  have b: "\<not> ClockwiseOrientation (0, 0) (1, 0) (0, 1)"
    using C4_orientation [of 0 0 1 0 0 1] by simp
  have c: "ClockwiseOrientation (1, 1) (3, 3) (2, 2)"
    using C4_orientation [of _ _ _ _ _ _ "(3, 3)" "(1, 1)" "(2, 2)"] z by blast
  from a b c z show ?thesis by blast
qed

subsection \<open>Circumcircle\<close>






subsection \<open>Constrained edges\<close>

lemma NewEdge_symmetric:
  "SumVectorComponents (h a) \<noteq> SumVectorComponents (h b) \<Longrightarrow> NewEdge h a b = NewEdge h b a"
  by (auto simp: NewEdge_def OrderCorners_def)

text \<open>
  C10 fails on the code: for the distinct points a = (0,1) and b = (1,0) the coordinate
  sums are equal, \<open>OrderCorners\<close> swaps neither (a, b) nor (b, a), the two edges are
  ordered by \<open>CompareEdges\<close> (neither is equivalent to the other), and the lookup in
  the set holding the edge built from (a, b) succeeds for (a, b) and fails for (b, a).
\<close>

theorem C10_failing_input:
  "IsEdgeConstrained (heap2 (0, 1) (1, 0)) [NewEdge (heap2 (0, 1) (1, 0)) 0 1] 0 1 = Inr True \<and>
   IsEdgeConstrained (heap2 (0, 1) (1, 0)) [NewEdge (heap2 (0, 1) (1, 0)) 0 1] 1 0 = Inr False \<and>
   CompareEdges (heap2 (0, 1) (1, 0)) (NewEdge (heap2 (0, 1) (1, 0)) 0 1)
     (NewEdge (heap2 (0, 1) (1, 0)) 1 0)"
  by (simp add: IsEdgeConstrained_def EdgeSet_find_def NewEdge_def OrderCorners_def
      SumVectorComponents_def CompareEdges_def pair2_less_def pair_less_def heap2_def)

subsection \<open>Bootstrap: the boundary triangle\<close>









subsection \<open>Removal of the outer triangles\<close>













lemma LinkFrom_flag: "LinkFrom h ce (t\<lparr> mFlagged := f \<rparr>) b = LinkFrom h ce t b"
  by (simp add: LinkFrom_def)














subsection \<open>Local Delaunay repair\<close>

lemma bind_fuel_lift_err:
  "bind_fuel (lift_err r) f = (case r of Inl e \<Rightarrow> Some (Inl e) | Inr x \<Rightarrow> f x)"
  by (cases r) (simp_all add: lift_err_def)

lemma bind_fuel_True_not_False:
  "bind_fuel x (\<lambda>m'. Some (Inr (True, m'))) \<noteq> Some (Inr (False, m''))"
proof (cases x)
  case None
  then show ?thesis by simp
next
  case (Some r)
  then show ?thesis by (cases r) simp_all
qed

lemma EnsureLocalDelaunay_False_unchanged:
  assumes "EnsureLocalDelaunay n isect h m first second bv ce = Some (Inr (False, m'))"
  shows "m' = m"
proof (cases n)
  case 0
  with assms show ?thesis by (simp add: EnsureLocalDelaunay.simps)
next
  case (Suc k)
  from assms show ?thesis
    unfolding Suc EnsureLocalDelaunay.simps bind_fuel_lift_err Let_def
    by (simp split: sum.splits if_splits prod.splits add: bind_fuel_True_not_False)
qed

lemma EnsureLocalDelaunay_first_flagged:
  "deref (mesh_triangles m) first = Inr ft \<Longrightarrow> mFlagged ft \<Longrightarrow>
     EnsureLocalDelaunay (Suc n) isect h m first second bv ce = Some (Inr (False, m))"
  by (simp add: EnsureLocalDelaunay.simps bind_fuel_lift_err)

lemma EnsureLocalDelaunay_second_flagged:
  "deref (mesh_triangles m) first = Inr ft \<Longrightarrow> deref (mesh_triangles m) second = Inr st \<Longrightarrow>
     mFlagged st \<Longrightarrow>
     EnsureLocalDelaunay (Suc n) isect h m first second bv ce = Some (Inr (False, m))"
  by (simp add: EnsureLocalDelaunay.simps bind_fuel_lift_err)

text \<open>
  C8.  Whenever \<open>EnsureLocalDelaunay\<close> returns false, the mesh it leaves is the mesh it
  was given (the triangle list with all corners, adjacency slots, sets of remaining
  vertices and flags, and the vertices' surrounding triangles); and when either triangle
  is flagged the call returns false at once, whatever the bound on the recursion.
\<close>

theorem C8_false_leaves_mesh:
  "(EnsureLocalDelaunay n isect h m first second bv ce = Some (Inr (False, m')) \<longrightarrow> m' = m) \<and>
   (deref (mesh_triangles m) first = Inr ft \<and> deref (mesh_triangles m) second = Inr st \<and>
    (mFlagged ft \<or> mFlagged st) \<longrightarrow>
      EnsureLocalDelaunay (Suc n) isect h m first second bv ce = Some (Inr (False, m)))"
  using EnsureLocalDelaunay_False_unchanged [of n isect h m first second bv ce m']
    EnsureLocalDelaunay_first_flagged [of m first ft n isect h second bv ce]
    EnsureLocalDelaunay_second_flagged [of m first ft second st n isect h bv ce]
  by blast

lemma EnsureLocalDelaunay_unenforced:
  assumes first: "deref (mesh_triangles m) first = Inr ft" and nff: "\<not> mFlagged ft"
    and second: "deref (mesh_triangles m) second = Inr st" and nfs: "\<not> mFlagged st"
    and arrange: "ArrangeCorners h ft st = Inr (sc1, sc2, dc)"
    and shared: "\<not> SharedEdgeEnforced isect h bv ce ft sc1 sc2"
    and disjoint: "\<not> DisjointEdgeEnforced isect h bv ce ft st dc"
    and circle: "ComputeCircumcircle h ft = Inr circle"
    and circle2: "ComputeCircumcircle h st = Inr circle2"
  shows "EnsureLocalDelaunay (Suc n) isect h m first second bv ce =
           (if InsideCircle (At h st (snd dc)) circle \<and> InsideCircle (At h ft (fst dc)) circle2
            then bind_fuel (ChangeEdgeSituation n isect h m first second bv ce sc1 sc2 dc)
                   (\<lambda>m'. Some (Inr (True, m')))
            else Some (Inr (False, m)))"
  using assms
  by (simp add: EnsureLocalDelaunay.simps bind_fuel_lift_err SharedEdgeEnforced_def
      DisjointEdgeEnforced_def)

lemmas quad_defs = quad_mesh_def quad_first_def quad_second_def quad_heap_def far_heap_def
  reflex_heap_def quad_flipped_def quad_mesh_flagged_def no_intersect_def

lemmas geometry_defs = At_def ClockwiseOrientation_def CrossProduct_def vsub_def vadd_def
  vscale_def PerpendicularVector_def SquaredLength_def InsideCircle_def

lemma quad_deref:
  "deref (mesh_triangles quad_mesh) 0 = Inr quad_first"
  "deref (mesh_triangles quad_mesh) 1 = Inr quad_second"
  by (simp_all add: deref_def quad_mesh_def)

lemma quad_unflagged: "\<not> mFlagged quad_first" "\<not> mFlagged quad_second"
  by (simp_all add: quad_defs)

lemma quad_ArrangeCorners:
  "ArrangeCorners quad_heap quad_first quad_second = Inr ((0, 1), (1, 0), (2, 2))"
  "ArrangeCorners far_heap quad_first quad_second = Inr ((0, 1), (1, 0), (2, 2))"
  "ArrangeCorners reflex_heap quad_first quad_second = Inr ((0, 1), (1, 0), (2, 2))"
  by (simp_all add: ArrangeCorners_def Let_def geometry_defs quad_defs)

lemma quad_circles:
  "ComputeCircumcircle quad_heap quad_first =
     Inr (Some \<lparr> midPoint = (3 / 2, 0), squaredRadius = 25 / 4 \<rparr>)"
  "ComputeCircumcircle quad_heap quad_second =
     Inr (Some \<lparr> midPoint = (- (3 / 2), 0), squaredRadius = 25 / 4 \<rparr>)"
  "ComputeCircumcircle far_heap quad_first =
     Inr (Some \<lparr> midPoint = (3 / 2, 0), squaredRadius = 25 / 4 \<rparr>)"
  "ComputeCircumcircle far_heap quad_second =
     Inr (Some \<lparr> midPoint = (77 / 18, 0), squaredRadius = 7225 / 324 \<rparr>)"
  by (simp_all add: ComputeCircumcircle_def Let_def geometry_defs quad_defs)

lemma quad_inside:
  "InsideCircle (At quad_heap quad_second (snd (2, 2)))
     (Some \<lparr> midPoint = (3 / 2, 0), squaredRadius = 25 / 4 \<rparr>) \<and>
   InsideCircle (At quad_heap quad_first (fst (2, 2)))
     (Some \<lparr> midPoint = (- (3 / 2), 0), squaredRadius = 25 / 4 \<rparr>)"
  "\<not> (InsideCircle (At far_heap quad_second (snd (2, 2)))
        (Some \<lparr> midPoint = (3 / 2, 0), squaredRadius = 25 / 4 \<rparr>) \<and>
      InsideCircle (At far_heap quad_first (fst (2, 2)))
        (Some \<lparr> midPoint = (77 / 18, 0), squaredRadius = 7225 / 324 \<rparr>))"
  by (simp_all add: geometry_defs quad_defs)

lemma quad_unenforced:
  "\<not> SharedEdgeEnforced no_intersect h0 [] [] quad_first (0, 1) (1, 0)"
  "\<not> DisjointEdgeEnforced no_intersect h0 [] [] quad_first quad_second (2, 2)"
  by (simp_all add: SharedEdgeEnforced_def DisjointEdgeEnforced_def SharedBoundary_def
      DisjointBoundary_def ContainsVertex_def IntersectsEdge_def)




lemma far_EnsureLocalDelaunay:
  "EnsureLocalDelaunay (Suc 0) no_intersect far_heap quad_mesh 0 1 [] [] =
     Some (Inr (False, quad_mesh))"
  unfolding EnsureLocalDelaunay_unenforced [OF quad_deref(1) quad_unflagged(1) quad_deref(2)
      quad_unflagged(2) quad_ArrangeCorners(2) quad_unenforced quad_circles(3) quad_circles(4)]
  by (rule if_not_P [OF quad_inside(2)])

theorem C8_false_leaves_mesh_witness:
  "EnsureLocalDelaunay (Suc 0) no_intersect far_heap quad_mesh 0 1 [] [] =
     Some (Inr (False, quad_mesh)) \<and>
   EnsureLocalDelaunay (Suc 0) no_intersect quad_heap quad_mesh_flagged 0 1 [] [] =
     Some (Inr (False, quad_mesh_flagged))"
proof -
  from far_EnsureLocalDelaunay obtain m' where
    r: "EnsureLocalDelaunay (Suc 0) no_intersect far_heap quad_mesh 0 1 [] [] =
          Some (Inr (False, m'))" by blast
  with C8_false_leaves_mesh [of "Suc 0" no_intersect far_heap quad_mesh 0 1 "[]" "[]" m']
  have "m' = quad_mesh" by blast
  with r have a: "EnsureLocalDelaunay (Suc 0) no_intersect far_heap quad_mesh 0 1 [] [] =
          Some (Inr (False, quad_mesh))" by simp
  have d: "deref (mesh_triangles quad_mesh_flagged) 0 = Inr (quad_first\<lparr> mFlagged := True \<rparr>)"
    "deref (mesh_triangles quad_mesh_flagged) 1 = Inr quad_second"
    by (simp_all add: deref_def quad_mesh_flagged_def)
  have f: "mFlagged (quad_first\<lparr> mFlagged := True \<rparr>)" by simp
  from C8_false_leaves_mesh [of 0 no_intersect quad_heap quad_mesh_flagged 0 1 "[]" "[]"
      quad_mesh_flagged "quad_first\<lparr> mFlagged := True \<rparr>" quad_second] d f
  have b: "EnsureLocalDelaunay (Suc 0) no_intersect quad_heap quad_mesh_flagged 0 1 [] [] =
             Some (Inr (False, quad_mesh_flagged))" by blast
  from a b show ?thesis by blast
qed



subsection \<open>Enforced edges and the convexity of the quadrilateral\<close>

















end
